theory Spec2Isabelle
  imports Main "HOL-Library.Multiset"
begin

section \<open>Data model (types.ts)\<close>

text \<open>
  \<^verbatim>\<open>gender: 'male' | 'female' | 'other' | ''\<close>: the empty literal is the unset gender.
  \<open>gender_literal\<close> gives the string the TypeScript value is, so that JavaScript truthiness
  (a string is truthy iff it is not empty) can be applied to it as the code does.
\<close>

datatype Gender = Male | Female | Other | Unset

fun gender_literal :: "Gender \<Rightarrow> string" where
  "gender_literal Male = ''male''"
| "gender_literal Female = ''female''"
| "gender_literal Other = ''other''"
| "gender_literal Unset = ''''"

record UserProfile =
  age :: string
  gender :: Gender
  healthContext :: string

text \<open>\<open>product_reason\<close> is the field \<^verbatim>\<open>reason\<close> of RecommendedProduct and \<open>calorie_note\<close>
  the field \<^verbatim>\<open>note\<close> of CalorieAnalysis.\<close>

record RecommendedProduct =
  name :: string
  product_reason :: string

record CalorieAnalysis =
  productCalories :: int
  userDailyNeed :: int
  percentage :: int
  calorie_note :: string

record ImageQualityCheck =
  isUnclear :: bool
  reason :: string

record AnalysisResult =
  imageQualityCheck :: ImageQualityCheck
  calorieAnalysis :: "CalorieAnalysis option"
  summary :: string
  pros :: "string list"
  cons :: "string list"
  recommendations :: "RecommendedProduct list"

text \<open>\<open>item_id\<close> is the field \<^verbatim>\<open>id\<close>; an absent \<^verbatim>\<open>imagePreviewUrl\<close> is \<open>None\<close>.\<close>

record ScanHistoryItem =
  item_id :: string
  timestamp :: nat
  result :: AnalysisResult
  imagePreviewUrl :: "string option"

datatype AppState = ONBOARDING | DASHBOARD

section \<open>The browser: localStorage, JSON, the clock\<close>

text \<open>
  The application keeps two JSON documents in localStorage, under the keys
  \<^verbatim>\<open>sukoyaka_profile\<close> and \<^verbatim>\<open>sukoyaka_history\<close>. An item is the empty string, a text
  that \<^verbatim>\<open>JSON.parse\<close> rejects, or the JSON text of a value \<open>v\<close>, written \<open>Json v\<close>
  (\<^verbatim>\<open>JSON.parse (JSON.stringify v)\<close> is \<open>v\<close> for the values met here: strings, integers,
  arrays and plain objects, a field holding \<^verbatim>\<open>undefined\<close> being left out and read back as
  absent).

  The record \<open>LocalStorage\<close> holds the documents the application itself writes: a profile
  and a list of history entries, as values of their TypeScript types. What the
  initialisation effect does with a document of any other shape is modelled on JSON values,
  in \<open>initialize_cells\<close> below.

  \<^verbatim>\<open>localStorage.setItem\<close> throws when the quota is exceeded. \<open>quotaExceeded\<close> scripts the
  browser: its n-th element says whether the n-th coming \<^verbatim>\<open>setItem\<close> call is rejected;
  calls beyond the script succeed.
\<close>

datatype 'a item = EmptyText | Malformed | Json 'a

datatype error = QuotaExceededError | SyntaxError | TypeError

record LocalStorage =
  sukoyaka_profile :: "UserProfile item option"
  sukoyaka_history :: "ScanHistoryItem list item option"
  quotaExceeded :: "bool list"

definition setItem_profile :: "UserProfile \<Rightarrow> LocalStorage \<Rightarrow> error option \<times> LocalStorage" where
  "setItem_profile v st =
     (case quotaExceeded st of
        [] \<Rightarrow> (None, st\<lparr>sukoyaka_profile := Some (Json v)\<rparr>)
      | rejected # script \<Rightarrow>
          (if rejected then (Some QuotaExceededError, st\<lparr>quotaExceeded := script\<rparr>)
           else (None, st\<lparr>sukoyaka_profile := Some (Json v), quotaExceeded := script\<rparr>)))"

definition setItem_history :: "ScanHistoryItem list \<Rightarrow> LocalStorage \<Rightarrow> error option \<times> LocalStorage" where
  "setItem_history v st =
     (case quotaExceeded st of
        [] \<Rightarrow> (None, st\<lparr>sukoyaka_history := Some (Json v)\<rparr>)
      | rejected # script \<Rightarrow>
          (if rejected then (Some QuotaExceededError, st\<lparr>quotaExceeded := script\<rparr>)
           else (None, st\<lparr>sukoyaka_history := Some (Json v), quotaExceeded := script\<rparr>)))"

definition removeItem_history :: "LocalStorage \<Rightarrow> LocalStorage" where
  "removeItem_history st = st\<lparr>sukoyaka_history := None\<rparr>"

text \<open>\<^verbatim>\<open>Date.now().toString()\<close>: the decimal digits of a non-negative integer.\<close>

definition digit :: "nat \<Rightarrow> char" where
  "digit d = ''0123456789'' ! d"

fun toString :: "nat \<Rightarrow> string" where
  "toString n = (if n < 10 then [digit n] else toString (n div 10) @ [digit (n mod 10)])"

declare toString.simps [simp del]

section \<open>App.tsx\<close>

datatype Tab = TabScan | TabHistory | TabSettings

text \<open>
  The state of the \<^verbatim>\<open>App\<close> component (its \<^verbatim>\<open>useState\<close> cells), together with the
  localStorage it writes and the messages it has shown with \<^verbatim>\<open>alert\<close>.
\<close>

record App =
  appState :: AppState
  userProfile :: UserProfile
  activeTab :: Tab
  selectedImages :: "string list"
  isAnalyzing :: bool
  currentResult :: "AnalysisResult option"
  history :: "ScanHistoryItem list"
  localStorage :: LocalStorage
  alerts :: "string list"

definition mount :: "LocalStorage \<Rightarrow> App" where
  "mount st =
     \<lparr>appState = ONBOARDING,
      userProfile = \<lparr>age = '''', gender = Unset, healthContext = ''''\<rparr>,
      activeTab = TabScan,
      selectedImages = [],
      isAnalyzing = False,
      currentResult = None,
      history = [],
      localStorage = st,
      alerts = []\<rparr>"

text \<open>A JavaScript string is truthy when it is not empty.\<close>

definition truthy :: "string \<Rightarrow> bool" where
  "truthy str = (str \<noteq> [])"

text \<open>
  A handler returns the exception that escapes it, if any, and the state with the updates
  made before the exception.

  The second half of the initialisation effect: \<^verbatim>\<open>if (savedHistory) setHistory(JSON.parse(savedHistory))\<close>.
\<close>

definition initialize_history :: "App \<Rightarrow> error option \<times> App" where
  "initialize_history s =
     (case sukoyaka_history (localStorage s) of
        None \<Rightarrow> (None, s)
      | Some EmptyText \<Rightarrow> (None, s)
      | Some Malformed \<Rightarrow> (Some SyntaxError, s)
      | Some (Json parsedHistory) \<Rightarrow> (None, s\<lparr>history := parsedHistory\<rparr>))"

text \<open>The initialisation effect (App.tsx, lines 25 to 43), run once on the mounted component.\<close>

definition initialize :: "App \<Rightarrow> error option \<times> App" where
  "initialize s =
     (case sukoyaka_profile (localStorage s) of
        None \<Rightarrow> initialize_history s
      | Some EmptyText \<Rightarrow> initialize_history s
      | Some Malformed \<Rightarrow> (Some SyntaxError, s)
      | Some (Json parsedProfile) \<Rightarrow>
          initialize_history
            (if truthy (age parsedProfile) \<and> truthy (healthContext parsedProfile)
             then s\<lparr>userProfile := parsedProfile, appState := DASHBOARD\<rparr>
             else s\<lparr>userProfile := parsedProfile, appState := ONBOARDING\<rparr>))"

definition startup :: "LocalStorage \<Rightarrow> error option \<times> App" where
  "startup st = initialize (mount st)"

subsection \<open>The initialisation effect on documents of every shape\<close>

text \<open>
  TypeScript does not check what \<^verbatim>\<open>JSON.parse\<close> returns: the effect puts the parsed value
  into the state cell whatever it is. Here the documents are JSON values and so are the
  cells \<^verbatim>\<open>userProfile\<close> and \<^verbatim>\<open>history\<close>. A number is an integer (a fraction behaves as a
  non-zero integer does: it is truthy, and it is stored as it is); an object lists its
  properties, each name once.
\<close>

datatype json =
    JNull
  | JBool bool
  | JNumber int
  | JString string
  | JArray "json list"
  | JObject "(string \<times> json) list"

text \<open>The object a profile is: what \<^verbatim>\<open>JSON.stringify\<close> writes of it and \<^verbatim>\<open>JSON.parse\<close>
  reads back.\<close>

definition profile_json :: "UserProfile \<Rightarrow> json" where
  "profile_json p =
     JObject [(''age'', JString (age p)),
              (''gender'', JString (gender_literal (gender p))),
              (''healthContext'', JString (healthContext p))]"

text \<open>
  Reading a property: of \<^verbatim>\<open>null\<close> it throws a TypeError, of an object it gives the property
  or \<^verbatim>\<open>undefined\<close> (\<open>None\<close>), of any other value \<^verbatim>\<open>undefined\<close>. Truthiness is
  JavaScript's.
\<close>

fun property :: "json \<Rightarrow> string \<Rightarrow> error + json option" where
  "property JNull key = Inl TypeError"
| "property (JObject properties) key = Inr (map_of properties key)"
| "property v key = Inr None"

fun truthy_value :: "json option \<Rightarrow> bool" where
  "truthy_value None = False"
| "truthy_value (Some JNull) = False"
| "truthy_value (Some (JBool b)) = b"
| "truthy_value (Some (JNumber n)) = (n \<noteq> 0)"
| "truthy_value (Some (JString str)) = truthy str"
| "truthy_value (Some (JArray vs)) = True"
| "truthy_value (Some (JObject properties)) = True"

record Cells =
  cell_userProfile :: json
  cell_appState :: AppState
  cell_history :: json

definition mount_cells :: Cells where
  "mount_cells =
     \<lparr>cell_userProfile = profile_json \<lparr>age = '''', gender = Unset, healthContext = ''''\<rparr>,
      cell_appState = ONBOARDING,
      cell_history = JArray []\<rparr>"

text \<open>
  The effect of lines 25 to 43 on the two cells and \<^verbatim>\<open>appState\<close>, from the two items as
  \<^verbatim>\<open>getItem\<close> returns them. \<^verbatim>\<open>setUserProfile (parsedProfile)\<close> comes before the two
  property reads of the condition, the second of which is made when the first is truthy.
\<close>

definition initialize_cells_history :: "json item option \<Rightarrow> Cells \<Rightarrow> error option \<times> Cells" where
  "initialize_cells_history savedHistory c =
     (case savedHistory of
        None \<Rightarrow> (None, c)
      | Some EmptyText \<Rightarrow> (None, c)
      | Some Malformed \<Rightarrow> (Some SyntaxError, c)
      | Some (Json parsedHistory) \<Rightarrow> (None, c\<lparr>cell_history := parsedHistory\<rparr>))"

definition initialize_cells ::
  "json item option \<Rightarrow> json item option \<Rightarrow> error option \<times> Cells" where
  "initialize_cells savedProfile savedHistory =
     (case savedProfile of
        None \<Rightarrow> initialize_cells_history savedHistory mount_cells
      | Some EmptyText \<Rightarrow> initialize_cells_history savedHistory mount_cells
      | Some Malformed \<Rightarrow> (Some SyntaxError, mount_cells)
      | Some (Json parsedProfile) \<Rightarrow>
          (let c = mount_cells\<lparr>cell_userProfile := parsedProfile\<rparr>
           in case property parsedProfile ''age'' of
                Inl e \<Rightarrow> (Some e, c)
              | Inr a \<Rightarrow>
                  if truthy_value a then
                    (case property parsedProfile ''healthContext'' of
                       Inl e \<Rightarrow> (Some e, c)
                     | Inr h \<Rightarrow>
                         initialize_cells_history savedHistory
                           (if truthy_value h then c\<lparr>cell_appState := DASHBOARD\<rparr>
                            else c\<lparr>cell_appState := ONBOARDING\<rparr>))
                  else initialize_cells_history savedHistory (c\<lparr>cell_appState := ONBOARDING\<rparr>)))"

text \<open>
  The cells of a typed state, for a given JSON form of a history entry. On the documents the
  application writes, \<open>initialize\<close> is \<open>initialize_cells\<close> read through it
  (\<open>initialize_typed\<close> below).
\<close>

definition cells_of :: "(ScanHistoryItem \<Rightarrow> json) \<Rightarrow> App \<Rightarrow> Cells" where
  "cells_of item_json s =
     \<lparr>cell_userProfile = profile_json (userProfile s),
      cell_appState = appState s,
      cell_history = JArray (map item_json (history s))\<rparr>"

text \<open>\<^verbatim>\<open>images[0]\<close> is \<^verbatim>\<open>undefined\<close> on an empty array.\<close>

definition first_image :: "string list \<Rightarrow> string option" where
  "first_image images = (case images of [] \<Rightarrow> None | x # _ \<Rightarrow> Some x)"

text \<open>
  The updater given to \<^verbatim>\<open>setHistory\<close> (lines 59 to 73). The first write is inside
  \<^verbatim>\<open>try\<close>; the write of the fallback is inside the \<^verbatim>\<open>catch\<close> block, with nothing around it.
  When the updater throws, it returns no new state: the history stays as it was.
\<close>

definition history_updater :: "ScanHistoryItem \<Rightarrow> App \<Rightarrow> error option \<times> App" where
  "history_updater new s =
     (let prepended = new # history s;
          updated = (if length prepended > 20 then butlast prepended else prepended)
      in case setItem_history updated (localStorage s) of
           (None, st) \<Rightarrow> (None, s\<lparr>history := updated, localStorage := st\<rparr>)
         | (Some e, st) \<Rightarrow>
             (let noImageHistory = map (\<lambda>h. h\<lparr>imagePreviewUrl := None\<rparr>) updated
              in case setItem_history noImageHistory st of
                   (None, st') \<Rightarrow> (None, s\<lparr>history := updated, localStorage := st'\<rparr>)
                 | (Some e', st') \<Rightarrow> (Some e', s\<lparr>localStorage := st'\<rparr>)))"

text \<open>\<^verbatim>\<open>saveToHistory\<close>; the two readings of \<^verbatim>\<open>Date.now()\<close> are parameters.\<close>

definition newItem :: "nat \<Rightarrow> nat \<Rightarrow> AnalysisResult \<Rightarrow> string list \<Rightarrow> ScanHistoryItem" where
  "newItem now_id now_timestamp res images =
     \<lparr>item_id = toString now_id, timestamp = now_timestamp, result = res,
      imagePreviewUrl = first_image images\<rparr>"

definition saveToHistory ::
  "nat \<Rightarrow> nat \<Rightarrow> AnalysisResult \<Rightarrow> string list \<Rightarrow> App \<Rightarrow> error option \<times> App" where
  "saveToHistory now_id now_timestamp res images s =
     (if isUnclear (imageQualityCheck res) then (None, s)
      else history_updater (newItem now_id now_timestamp res images) s)"

definition clearHistory :: "bool \<Rightarrow> App \<Rightarrow> App" where
  "clearHistory confirmed s =
     (if confirmed then s\<lparr>history := [], localStorage := removeItem_history (localStorage s)\<rparr>
      else s)"

definition handleProfileSave :: "UserProfile \<Rightarrow> App \<Rightarrow> error option \<times> App" where
  "handleProfileSave profile s =
     (case setItem_profile profile (localStorage s) of
        (Some e, st) \<Rightarrow> (Some e, s\<lparr>userProfile := profile, localStorage := st\<rparr>)
      | (None, st) \<Rightarrow>
          (None, s\<lparr>userProfile := profile, localStorage := st,
                   appState := DASHBOARD, activeTab := TabScan\<rparr>))"

text \<open>
  \<^verbatim>\<open>handleAnalysis\<close> is asynchronous. Up to its \<^verbatim>\<open>await\<close> it runs at once and hands the
  gateway a request holding the profile and the Selection of the moment; the rest runs when
  the gateway settles, on the state the application has by then, with the Selection the
  closure captured.
\<close>

record Request =
  request_profile :: UserProfile
  request_images :: "string list"

definition handleAnalysis :: "App \<Rightarrow> Request option \<times> App" where
  "handleAnalysis s =
     (if length (selectedImages s) = 0 then (None, s)
      else (Some \<lparr>request_profile = userProfile s, request_images = selectedImages s\<rparr>,
            s\<lparr>isAnalyzing := True, currentResult := None\<rparr>))"

text \<open>
  The gateway settles with a result or throws an \<^verbatim>\<open>Error\<close> with a message
  (\<^verbatim>\<open>analyzeHealthImpact\<close> throws nothing else). An exception of the history updater is
  raised by React when it runs the updater, not inside the \<^verbatim>\<open>try\<close> of \<^verbatim>\<open>handleAnalysis\<close>:
  no alert is shown for it and it escapes.
\<close>

definition handleAnalysis_settled ::
  "Request \<Rightarrow> string + AnalysisResult \<Rightarrow> nat \<Rightarrow> nat \<Rightarrow> App \<Rightarrow> error option \<times> App" where
  "handleAnalysis_settled rq outcome now_id now_timestamp s =
     (case outcome of
        Inr res \<Rightarrow>
          (case saveToHistory now_id now_timestamp res (request_images rq)
                  (s\<lparr>currentResult := Some res\<rparr>) of
             (e, s') \<Rightarrow> (e, s'\<lparr>isAnalyzing := False\<rparr>))
      | Inl message \<Rightarrow> (None, s\<lparr>alerts := alerts s @ [message], isAnalyzing := False\<rparr>))"

definition resetScan :: "App \<Rightarrow> App" where
  "resetScan s = s\<lparr>selectedImages := [], currentResult := None\<rparr>"

definition loadHistoryItem :: "ScanHistoryItem \<Rightarrow> App \<Rightarrow> App" where
  "loadHistoryItem item s = s\<lparr>currentResult := Some (result item), activeTab := TabScan\<rparr>"

text \<open>\<^verbatim>\<open>userProfile.age && userProfile.gender && userProfile.healthContext\<close>, read as a condition.\<close>

definition isProfileConfigured :: "UserProfile \<Rightarrow> bool" where
  "isProfileConfigured p =
     (truthy (age p) \<and> truthy (gender_literal (gender p)) \<and> truthy (healthContext p))"

subsection \<open>What is rendered, and what a click can reach\<close>

datatype AnalyzeButton = NoButton | ButtonDisabled | ButtonEnabled

datatype ScanView = Locked | Capture AnalyzeButton | ResultView AnalysisResult

datatype View = OnboardingForm | ScanTab ScanView | HistoryTab | SettingsTab

definition render_scan :: "App \<Rightarrow> ScanView" where
  "render_scan s =
     (if \<not> isProfileConfigured (userProfile s) then Locked
      else case currentResult s of
             None \<Rightarrow>
               Capture (if length (selectedImages s) > 0
                        then (if isAnalyzing s then ButtonDisabled else ButtonEnabled)
                        else NoButton)
           | Some r \<Rightarrow> ResultView r)"

definition render :: "App \<Rightarrow> View" where
  "render s =
     (if appState s = ONBOARDING then OnboardingForm
      else case activeTab s of
             TabScan \<Rightarrow> ScanTab (render_scan s)
           | TabHistory \<Rightarrow> HistoryTab
           | TabSettings \<Rightarrow> SettingsTab)"

text \<open>A click on the analyse button runs \<^verbatim>\<open>handleAnalysis\<close> when the button is on the
  screen and not disabled.\<close>

definition click_analyze :: "App \<Rightarrow> Request option \<times> App" where
  "click_analyze s =
     (if render s = ScanTab (Capture ButtonEnabled) then handleAnalysis s else (None, s))"

text \<open>\<^verbatim>\<open>ImageCapture\<close> reports a Selection through \<^verbatim>\<open>onImagesSelected = setSelectedImages\<close>.\<close>

definition setSelectedImages :: "string list \<Rightarrow> App \<Rightarrow> App" where
  "setSelectedImages images s = s\<lparr>selectedImages := images\<rparr>"

subsection \<open>Runs of the application\<close>

text \<open>
  A run is a sequence of events on the application and the requests the gateway has not
  yet answered. \<open>started\<close> counts the attempts dispatched so far, and a request in flight
  carries the number of its attempt. The click on the analyse button goes through what is
  rendered; the gateway answers any request in flight, at any time, with any outcome; every
  other event is allowed in every state, which only adds runs. An exception that escapes
  the handler of an answer is not followed: the run goes on from the state the handler
  left.
\<close>

record World =
  app :: App
  started :: nat
  in_flight :: "(nat \<times> Request) list"

datatype event =
    ImagesSelected "string list"
  | ClickAnalyze
  | GatewaySettles nat "string + AnalysisResult" nat nat
  | ClickBack
  | ClickRetry
  | ClickNavScan
  | ClickNavHistory
  | ClickNavSettings
  | SubmitProfile UserProfile
  | ClickHistoryItem ScanHistoryItem
  | ClickClearHistory bool

definition step :: "event \<Rightarrow> World \<Rightarrow> World" where
  "step e w =
     (case e of
        ImagesSelected images \<Rightarrow> w\<lparr>app := setSelectedImages images (app w)\<rparr>
      | ClickAnalyze \<Rightarrow>
          (case click_analyze (app w) of
             (None, s) \<Rightarrow> w\<lparr>app := s\<rparr>
           | (Some rq, s) \<Rightarrow>
               w\<lparr>app := s, started := started w + 1,
                 in_flight := in_flight w @ [(started w + 1, rq)]\<rparr>)
      | GatewaySettles i outcome now_id now_timestamp \<Rightarrow>
          (if i < length (in_flight w)
           then w\<lparr>app := snd (handleAnalysis_settled (snd (in_flight w ! i)) outcome
                               now_id now_timestamp (app w)),
                  in_flight := take i (in_flight w) @ drop (Suc i) (in_flight w)\<rparr>
           else w)
      | ClickBack \<Rightarrow> w\<lparr>app := resetScan (app w)\<rparr>
      | ClickRetry \<Rightarrow> w\<lparr>app := resetScan (app w)\<rparr>
      | ClickNavScan \<Rightarrow> w\<lparr>app := (resetScan (app w))\<lparr>activeTab := TabScan\<rparr>\<rparr>
      | ClickNavHistory \<Rightarrow> w\<lparr>app := (app w)\<lparr>activeTab := TabHistory\<rparr>\<rparr>
      | ClickNavSettings \<Rightarrow> w\<lparr>app := (app w)\<lparr>activeTab := TabSettings\<rparr>\<rparr>
      | SubmitProfile profile \<Rightarrow> w\<lparr>app := snd (handleProfileSave profile (app w))\<rparr>
      | ClickHistoryItem item \<Rightarrow> w\<lparr>app := loadHistoryItem item (app w)\<rparr>
      | ClickClearHistory confirmed \<Rightarrow> w\<lparr>app := clearHistory confirmed (app w)\<rparr>)"

fun run :: "event list \<Rightarrow> World \<Rightarrow> World" where
  "run [] w = w"
| "run (e # events) w = run events (step e w)"

section \<open>components/ImageCapture.tsx\<close>

text \<open>
  \<^verbatim>\<open>handleFileChange\<close> starts one \<^verbatim>\<open>FileReader\<close> per file. The closure of the call holds
  \<^verbatim>\<open>newPreviews\<close> and \<^verbatim>\<open>processedCount\<close>; \<^verbatim>\<open>previews\<close> is the Selection of the render the
  handler belongs to. A reader's \<^verbatim>\<open>result\<close> is \<^verbatim>\<open>null\<close> when the read failed.
\<close>

record Batch =
  newPreviews :: "string list"
  processedCount :: nat

definition truthy_result :: "string option \<Rightarrow> bool" where
  "truthy_result r = (case r of None \<Rightarrow> False | Some url \<Rightarrow> truthy url)"

text \<open>One \<^verbatim>\<open>onloadend\<close> callback: the new closure state and the Selection it publishes, if any.\<close>

definition onloadend ::
  "string list \<Rightarrow> nat \<Rightarrow> string option \<Rightarrow> Batch \<Rightarrow> Batch \<times> string list option" where
  "onloadend previews files_length reader_result b =
     (let pushed = (case reader_result of
                      None \<Rightarrow> newPreviews b
                    | Some url \<Rightarrow> if truthy url then newPreviews b @ [url] else newPreviews b);
          b' = \<lparr>newPreviews = pushed, processedCount = processedCount b + 1\<rparr>
      in if processedCount b' = files_length then (b', Some (previews @ pushed))
         else (b', None))"

text \<open>
  The callbacks run in the order the reads complete: \<open>completion\<close> lists the positions of the
  files in that order. Every Selection published on the way is collected, oldest first.
  A position with no file has no reader and no callback.
\<close>

fun run_callbacks ::
  "string list \<Rightarrow> string option list \<Rightarrow> nat list \<Rightarrow> Batch \<Rightarrow> string list list" where
  "run_callbacks previews files [] b = []"
| "run_callbacks previews files (i # completion) b =
     (if i < length files then
        (case onloadend previews (length files) (files ! i) b of
           (b', None) \<Rightarrow> run_callbacks previews files completion b'
         | (b', Some updated) \<Rightarrow> updated # run_callbacks previews files completion b')
      else run_callbacks previews files completion b)"

definition handleFileChange :: "string list \<Rightarrow> string option list \<Rightarrow> nat list \<Rightarrow> string list list" where
  "handleFileChange previews files completion =
     run_callbacks previews files completion \<lparr>newPreviews = [], processedCount = 0\<rparr>"

definition removeImage :: "nat \<Rightarrow> string list \<Rightarrow> string list" where
  "removeImage index previews = map snd (filter (\<lambda>(i, _). i \<noteq> index) (enumerate 0 previews))"

section \<open>Vocabulary of the properties, and concrete inputs\<close>

definition no_unclear :: "ScanHistoryItem list \<Rightarrow> bool" where
  "no_unclear log = list_all (\<lambda>h. \<not> isUnclear (imageQualityCheck (result h))) log"

definition persisted_no_unclear :: "LocalStorage \<Rightarrow> bool" where
  "persisted_no_unclear st =
     (case sukoyaka_history st of Some (Json log) \<Rightarrow> no_unclear log | _ \<Rightarrow> True)"

definition verdict :: "bool \<Rightarrow> string \<Rightarrow> AnalysisResult" where
  "verdict unclear text =
     \<lparr>imageQualityCheck = \<lparr>isUnclear = unclear, reason = ''''\<rparr>, calorieAnalysis = None,
      summary = text, pros = [], cons = [], recommendations = []\<rparr>"

definition browser :: "bool list \<Rightarrow> LocalStorage" where
  "browser script = \<lparr>sukoyaka_profile = None, sukoyaka_history = None, quotaExceeded = script\<rparr>"

definition dashboard :: "UserProfile \<Rightarrow> string list \<Rightarrow> LocalStorage \<Rightarrow> App" where
  "dashboard p images st =
     (mount st)\<lparr>appState := DASHBOARD, userProfile := p, selectedImages := images\<rparr>"

definition woman_35 :: UserProfile where
  "woman_35 = \<lparr>age = ''35'', gender = Female, healthContext = ''low salt''\<rparr>"

definition no_gender_35 :: UserProfile where
  "no_gender_35 = \<lparr>age = ''35'', gender = Unset, healthContext = ''low salt''\<rparr>"

text \<open>The data URLs a list of reader results contributes: the results that are truthy.\<close>

fun decoded :: "string option list \<Rightarrow> string list" where
  "decoded [] = []"
| "decoded (None # rs) = decoded rs"
| "decoded (Some url # rs) = (if truthy url then url # decoded rs else decoded rs)"




section \<open>Helper facts\<close>

lemma isProfileConfigured_iff:
  "isProfileConfigured p \<longleftrightarrow> age p \<noteq> '''' \<and> gender p \<noteq> Unset \<and> healthContext p \<noteq> ''''"
  by (cases "gender p") (simp_all add: isProfileConfigured_def truthy_def)

lemma setItem_history_outcome:
  "setItem_history v st =
     (if quotaExceeded st \<noteq> [] \<and> hd (quotaExceeded st)
      then (Some QuotaExceededError, st\<lparr>quotaExceeded := tl (quotaExceeded st)\<rparr>)
      else (None, st\<lparr>sukoyaka_history := Some (Json v), quotaExceeded := tl (quotaExceeded st)\<rparr>))"
  by (cases st) (auto simp: setItem_history_def split: list.splits)

lemma history_updater_ok:
  assumes "fst (history_updater new s) = None"
  shows "history (snd (history_updater new s)) =
           (if length (new # history s) > 20 then butlast (new # history s)
            else new # history s)"
  using assms
  by (auto simp: history_updater_def Let_def setItem_history_outcome split: if_splits)

lemma no_unclear_butlast: "no_unclear log \<Longrightarrow> no_unclear (butlast log)"
  by (auto simp: no_unclear_def list_all_iff dest: in_set_butlastD)

lemma no_unclear_stripped:
  "no_unclear (map (\<lambda>h. h\<lparr>imagePreviewUrl := None\<rparr>) log) = no_unclear log"
  by (simp add: no_unclear_def list_all_iff)

lemma no_unclear_Cons:
  "no_unclear (h # log) \<longleftrightarrow> \<not> isUnclear (imageQualityCheck (result h)) \<and> no_unclear log"
  by (simp add: no_unclear_def)

lemma history_updater_no_unclear:
  assumes "\<not> isUnclear (imageQualityCheck (result new))" and "no_unclear (history s)"
  shows "no_unclear (history (snd (history_updater new s)))"
  using assms
  by (auto simp: history_updater_def Let_def setItem_history_outcome no_unclear_Cons
      intro: no_unclear_butlast [of "new # history s"] dest: no_unclear_butlast)

lemma history_updater_persisted_no_unclear:
  assumes "\<not> isUnclear (imageQualityCheck (result new))" and "no_unclear (history s)"
    and "persisted_no_unclear (localStorage s)"
  shows "persisted_no_unclear (localStorage (snd (history_updater new s)))"
proof -
  let ?updated = "if length (new # history s) > 20 then butlast (new # history s) else new # history s"
  have "no_unclear (new # history s)"
    using assms by (simp add: no_unclear_Cons)
  then have upd: "no_unclear ?updated"
    using no_unclear_butlast [of "new # history s"] by simp
  then have str: "no_unclear (map (\<lambda>h. h\<lparr>imagePreviewUrl := None\<rparr>) ?updated)"
    by (simp only: no_unclear_stripped)
  show ?thesis
    using upd str assms(3)
    by (auto simp: history_updater_def Let_def setItem_history_outcome persisted_no_unclear_def)
qed


lemma saveToHistory_fallback_accepted:
  assumes "\<not> isUnclear (imageQualityCheck r)"
    and "quotaExceeded (localStorage s) = True # False # script"
  shows "fst (saveToHistory a b r images s) = None
     \<and> history (snd (saveToHistory a b r images s)) =
         (if length (newItem a b r images # history s) > 20
          then butlast (newItem a b r images # history s)
          else newItem a b r images # history s)
     \<and> sukoyaka_history (localStorage (snd (saveToHistory a b r images s))) =
         Some (Json (map (\<lambda>h. h\<lparr>imagePreviewUrl := None\<rparr>)
           (if length (newItem a b r images # history s) > 20
            then butlast (newItem a b r images # history s)
            else newItem a b r images # history s)))"
  using assms
  by (simp add: saveToHistory_def history_updater_def Let_def setItem_history_outcome)

lemma saveToHistory_fallback_rejected:
  assumes "\<not> isUnclear (imageQualityCheck r)"
    and "quotaExceeded (localStorage s) = True # True # script"
  shows "fst (saveToHistory a b r images s) = Some QuotaExceededError
     \<and> history (snd (saveToHistory a b r images s)) = history s
     \<and> sukoyaka_history (localStorage (snd (saveToHistory a b r images s))) =
         sukoyaka_history (localStorage s)"
  using assms
  by (simp add: saveToHistory_def history_updater_def Let_def setItem_history_outcome)

lemma startup_no_unclear:
  "persisted_no_unclear st \<Longrightarrow> no_unclear (history (snd (startup st)))
     \<and> persisted_no_unclear (localStorage (snd (startup st)))"
  by (auto simp: startup_def initialize_def initialize_history_def mount_def
      persisted_no_unclear_def no_unclear_def split: option.splits item.splits)

lemma decoded_filter: "decoded rs = map the (filter truthy_result rs)"
  by (induction rs rule: decoded.induct) (simp_all add: truthy_result_def)

lemma decoded_append: "decoded (rs @ rs') = decoded rs @ decoded rs'"
  by (simp add: decoded_filter)

lemma onloadend_pushed:
  "onloadend previews n r b =
     (\<lparr>newPreviews = newPreviews b @ decoded [r], processedCount = Suc (processedCount b)\<rparr>,
      if Suc (processedCount b) = n then Some (previews @ newPreviews b @ decoded [r]) else None)"
  by (cases r) (simp_all add: onloadend_def Let_def)

lemma run_callbacks_last:
  assumes "completion \<noteq> []"
    and "processedCount b + length completion = length files"
    and "\<forall>i \<in> set completion. i < length files"
  shows "run_callbacks previews files completion b =
           [previews @ newPreviews b @ decoded (map (\<lambda>i. files ! i) completion)]"
  using assms
proof (induction completion arbitrary: b)
  case Nil
  then show ?case by simp
next
  case (Cons i completion)
  let ?b' = "\<lparr>newPreviews = newPreviews b @ decoded [files ! i],
              processedCount = Suc (processedCount b)\<rparr>"
  from Cons.prems have i: "i < length files" by simp
  show ?case
  proof (cases "completion = []")
    case True
    with Cons.prems i show ?thesis
      by (simp add: onloadend_pushed)
  next
    case False
    from Cons.prems have count: "processedCount ?b' + length completion = length files"
      and range: "\<forall>i \<in> set completion. i < length files"
      by simp_all
    from False count have "Suc (processedCount b) \<noteq> length files"
      by (cases completion) auto
    with i have "run_callbacks previews files (i # completion) b
        = run_callbacks previews files completion ?b'"
      by (simp add: onloadend_pushed)
    also have "\<dots> = [previews @ newPreviews ?b' @ decoded (map (\<lambda>i. files ! i) completion)]"
      using Cons.IH [OF False count range] .
    also have "\<dots> = [previews @ newPreviews b @ decoded (map (\<lambda>i. files ! i) (i # completion))]"
      using decoded_append [of "[files ! i]" "map (\<lambda>i. files ! i) completion"] by simp
    finally show ?thesis .
  qed
qed

lemma mset_decoded: "mset rs = mset rs' \<Longrightarrow> mset (decoded rs) = mset (decoded rs')"
proof -
  assume "mset rs = mset rs'"
  then have "mset (filter truthy_result rs) = mset (filter truthy_result rs')"
    by (metis mset_filter)
  then have "mset (map the (filter truthy_result rs)) = mset (map the (filter truthy_result rs'))"
    by (metis mset_map)
  then show ?thesis by (simp only: decoded_filter)
qed

lemma history_bound_kept:
  assumes "length (history s) \<le> 20"
  shows "length (history (snd (saveToHistory a b r images s))) \<le> 20"
  using assms
  by (auto simp: saveToHistory_def history_updater_def Let_def setItem_history_outcome)







lemma property_value:
  "v \<noteq> JNull \<Longrightarrow>
     property v key = Inr (case v of JObject properties \<Rightarrow> map_of properties key | _ \<Rightarrow> None)"
  by (cases v) simp_all

lemma initialize_cells_history_thrown:
  "fst (initialize_cells_history history_doc c)
     = (if history_doc = Some Malformed then Some SyntaxError else None)"
  by (auto simp: initialize_cells_history_def split: option.splits item.splits)

lemma initialize_cells_history_profile:
  "cell_userProfile (snd (initialize_cells_history history_doc c)) = cell_userProfile c"
  by (auto simp: initialize_cells_history_def split: option.splits item.splits)

lemma initialize_cells_history_loaded:
  "cell_history (snd (initialize_cells_history history_doc c))
     = (case history_doc of Some (Json v) \<Rightarrow> v | _ \<Rightarrow> cell_history c)"
  by (auto simp: initialize_cells_history_def split: option.splits item.splits)

lemma initialize_typed:
  "initialize_cells
     (map_option (map_item profile_json) (sukoyaka_profile st))
     (map_option (map_item (\<lambda>entries. JArray (map item_json entries))) (sukoyaka_history st))
   = (fst (startup st), cells_of item_json (snd (startup st)))"
  by (auto simp: initialize_cells_def initialize_cells_history_def mount_cells_def cells_of_def
      startup_def initialize_def initialize_history_def mount_def profile_json_def Let_def
      split: option.splits item.splits)

lemma initialize_cells_thrown:
  "fst (initialize_cells profile_doc history_doc)
     = (if profile_doc = Some Malformed then Some SyntaxError
        else if profile_doc = Some (Json JNull) then Some TypeError
        else if history_doc = Some Malformed then Some SyntaxError
        else None)"
proof (cases profile_doc)
  case None
  then show ?thesis
    by (simp add: initialize_cells_def initialize_cells_history_thrown)
next
  case (Some d)
  show ?thesis
  proof (cases d)
    case (Json v)
    show ?thesis
    proof (cases "v = JNull")
      case True
      with Some Json show ?thesis by (simp add: initialize_cells_def)
    next
      case False
      with Some Json show ?thesis
        by (simp add: initialize_cells_def Let_def property_value
            initialize_cells_history_thrown)
    qed
  qed (use Some in \<open>simp_all add: initialize_cells_def initialize_cells_history_thrown\<close>)
qed

lemma initialize_cells_loaded:
  assumes "fst (initialize_cells profile_doc history_doc) = None"
  shows "cell_userProfile (snd (initialize_cells profile_doc history_doc))
       = (case profile_doc of
            Some (Json v) \<Rightarrow> v
          | _ \<Rightarrow> profile_json \<lparr>age = '''', gender = Unset, healthContext = ''''\<rparr>)
     \<and> cell_history (snd (initialize_cells profile_doc history_doc))
       = (case history_doc of Some (Json v) \<Rightarrow> v | _ \<Rightarrow> JArray [])"
proof (cases profile_doc)
  case None
  then show ?thesis
    by (simp add: initialize_cells_def initialize_cells_history_profile
        initialize_cells_history_loaded mount_cells_def split: option.splits item.splits)
next
  case (Some d)
  show ?thesis
  proof (cases d)
    case (Json v)
    with Some assms have "v \<noteq> JNull"
      by (auto simp: initialize_cells_thrown)
    with Some Json show ?thesis
      by (simp add: initialize_cells_def Let_def property_value
          initialize_cells_history_profile initialize_cells_history_loaded mount_cells_def
          split: option.splits item.splits)
  next
    case EmptyText
    with Some show ?thesis
      by (simp add: initialize_cells_def initialize_cells_history_profile
          initialize_cells_history_loaded mount_cells_def split: option.splits item.splits)
  next
    case Malformed
    with Some assms show ?thesis
      by (simp add: initialize_cells_thrown)
  qed
qed

section \<open>The profile gate\<close>

text \<open>
  C7. A profile is configured exactly when its age is not empty, its gender is set and its
  health context is not empty. While the profile of the application is not configured, a
  click on the analyse button dispatches no request to the gateway and changes nothing:
  what is on the screen is the onboarding form, the locked scan tab, the history or the
  settings, never the capture view with its button.
\<close>

theorem gate_invariant:
  "(isProfileConfigured p \<longleftrightarrow> age p \<noteq> '''' \<and> gender p \<noteq> Unset \<and> healthContext p \<noteq> '''')
   \<and> (\<not> isProfileConfigured (userProfile s) \<longrightarrow>
        click_analyze s = (None, s)
        \<and> (render s = OnboardingForm \<or> render s = ScanTab Locked
            \<or> render s = HistoryTab \<or> render s = SettingsTab))"
proof -
  have gate: "click_analyze s = (None, s)"
    and routed: "render s = OnboardingForm \<or> render s = ScanTab Locked
            \<or> render s = HistoryTab \<or> render s = SettingsTab"
    if "\<not> isProfileConfigured (userProfile s)"
    using that by (auto simp: click_analyze_def render_def render_scan_def split: Tab.splits)
  with isProfileConfigured_iff [of p] show ?thesis by blast
qed

theorem gate_invariant_witness:
  "\<not> isProfileConfigured no_gender_35
   \<and> click_analyze (dashboard no_gender_35 [''img''] (browser []))
       = (None, dashboard no_gender_35 [''img''] (browser []))
   \<and> render (dashboard no_gender_35 [''img''] (browser [])) = ScanTab Locked
   \<and> fst (handleAnalysis (dashboard no_gender_35 [''img''] (browser []))) \<noteq> None"
  using gate_invariant [of no_gender_35 "dashboard no_gender_35 [''img''] (browser [])"]
  by (simp add: dashboard_def mount_def render_def render_scan_def handleAnalysis_def
      no_gender_35_def)

text \<open>
  C10. On startup with a saved profile (and a history document that parses), the
  application goes to the dashboard exactly when the saved age and health context are not
  empty; the gender is not looked at. A saved profile with both but no gender reaches the
  dashboard, whose scan tab is then locked.
\<close>

theorem startup_routing:
  assumes "sukoyaka_profile st = Some (Json p)" and "sukoyaka_history st \<noteq> Some Malformed"
  shows "fst (startup st) = None
    \<and> appState (snd (startup st)) =
        (if age p \<noteq> '''' \<and> healthContext p \<noteq> '''' then DASHBOARD else ONBOARDING)
    \<and> (age p \<noteq> '''' \<and> healthContext p \<noteq> '''' \<and> gender p = Unset \<longrightarrow>
         render (snd (startup st)) = ScanTab Locked)"
  using assms
  by (auto simp: startup_def initialize_def initialize_history_def mount_def render_def
        render_scan_def isProfileConfigured_def truthy_def split: option.splits item.splits)

theorem startup_routing_witness:
  "sukoyaka_profile ((browser [])\<lparr>sukoyaka_profile := Some (Json no_gender_35)\<rparr>)
     = Some (Json no_gender_35)
   \<and> sukoyaka_history ((browser [])\<lparr>sukoyaka_profile := Some (Json no_gender_35)\<rparr>)
     \<noteq> Some Malformed
   \<and> age no_gender_35 \<noteq> '''' \<and> healthContext no_gender_35 \<noteq> '''' \<and> gender no_gender_35 = Unset
   \<and> appState (snd (startup ((browser [])\<lparr>sukoyaka_profile := Some (Json no_gender_35)\<rparr>)))
     = DASHBOARD
   \<and> render (snd (startup ((browser [])\<lparr>sukoyaka_profile := Some (Json no_gender_35)\<rparr>)))
     = ScanTab Locked"
  using startup_routing [of "(browser [])\<lparr>sukoyaka_profile := Some (Json no_gender_35)\<rparr>"
      no_gender_35]
  by (simp add: browser_def no_gender_35_def)

section \<open>The history log\<close>

text \<open>
  An append that returns puts the new entry at the head and, when the length then exceeds
  20, removes one entry from the tail. On a log of at most 20 entries that is the first 20 of
  the new entry followed by the log; on a full log of 20 entries it is the new entry
  followed by all but the oldest. Returning or not, a call on a log of at most 20 entries
  leaves at most 20 (\<open>history_bound_kept\<close>).
\<close>

lemma history_append:
  assumes "\<not> isUnclear (imageQualityCheck r)"
    and "fst (saveToHistory a b r images s) = None"
  shows "history (snd (saveToHistory a b r images s)) =
           (if length (newItem a b r images # history s) > 20
            then butlast (newItem a b r images # history s)
            else newItem a b r images # history s)
     \<and> (length (history s) \<le> 20 \<longrightarrow>
          history (snd (saveToHistory a b r images s)) = take 20 (newItem a b r images # history s)
          \<and> length (history (snd (saveToHistory a b r images s))) \<le> 20)
     \<and> (length (history s) = 20 \<longrightarrow>
          history (snd (saveToHistory a b r images s)) = newItem a b r images # butlast (history s)
          \<and> length (history (snd (saveToHistory a b r images s))) = 20)"
proof -
  let ?new = "newItem a b r images"
  let ?log = "history (snd (saveToHistory a b r images s))"
  have run: "saveToHistory a b r images s = history_updater ?new s"
    using assms(1) by (simp add: saveToHistory_def)
  with assms(2) have log: "?log =
      (if length (?new # history s) > 20 then butlast (?new # history s) else ?new # history s)"
    using history_updater_ok [of ?new s] by simp
  have bounded: "?log = take 20 (?new # history s) \<and> length ?log \<le> 20"
    if "length (history s) \<le> 20"
  proof (cases "length (history s) = 20")
    case True
    then have "butlast (?new # history s) = take 20 (?new # history s)"
      by (simp add: butlast_conv_take)
    with True log show ?thesis by simp
  next
    case False
    with that log show ?thesis by simp
  qed
  have full: "?log = ?new # butlast (history s) \<and> length ?log = 20"
    if "length (history s) = 20"
  proof -
    from that have "history s \<noteq> []" by auto
    with that log show ?thesis by simp
  qed
  from log bounded full show ?thesis by blast
qed

text \<open>
  C5. Appending a 21st entry to a full log of 20 entries in a browser that rejects both the
  write and the retry without previews: the updater throws, and the log is the old one,
  with its oldest entry still there and the appended entry not at its head.
\<close>

theorem append_lost_when_writes_rejected:
  "fst (saveToHistory 21 21 (verdict False ''ok'') [''img'']
          ((mount (browser [True, True]))\<lparr>history := replicate 20 (newItem 0 0 (verdict False ''old'') [])\<rparr>))
     = Some QuotaExceededError
   \<and> history (snd (saveToHistory 21 21 (verdict False ''ok'') [''img'']
          ((mount (browser [True, True]))\<lparr>history := replicate 20 (newItem 0 0 (verdict False ''old'') [])\<rparr>)))
     = replicate 20 (newItem 0 0 (verdict False ''old'') [])"
  by (simp add: saveToHistory_def history_updater_def setItem_history_def mount_def browser_def
      verdict_def Let_def)

text \<open>
  C6. An unclear result creates no history entry: \<^verbatim>\<open>saveToHistory\<close> returns at once, and
  the history in memory and the persisted document are as they were, also when the result
  arrives through \<^verbatim>\<open>handleAnalysis\<close>. So a history without unclear results, in memory and
  persisted, stays one under every call of \<^verbatim>\<open>saveToHistory\<close>, and a start on a persisted
  history without unclear results loads one.
\<close>

theorem unclear_never_saved:
  "(isUnclear (imageQualityCheck r) \<longrightarrow>
      saveToHistory a b r images s = (None, s)
      \<and> history (snd (handleAnalysis_settled rq (Inr r) a b s)) = history s
      \<and> localStorage (snd (handleAnalysis_settled rq (Inr r) a b s)) = localStorage s)
   \<and> (no_unclear (history s) \<longrightarrow> no_unclear (history (snd (saveToHistory a b r images s))))
   \<and> (no_unclear (history s) \<and> persisted_no_unclear (localStorage s) \<longrightarrow>
        persisted_no_unclear (localStorage (snd (saveToHistory a b r images s))))
   \<and> (persisted_no_unclear st \<longrightarrow> no_unclear (history (snd (startup st))))"
proof -
  have skip: "saveToHistory a b r images s = (None, s)
      \<and> history (snd (handleAnalysis_settled rq (Inr r) a b s)) = history s
      \<and> localStorage (snd (handleAnalysis_settled rq (Inr r) a b s)) = localStorage s"
    if "isUnclear (imageQualityCheck r)"
    using that by (simp add: saveToHistory_def handleAnalysis_settled_def)
  have new: "result (newItem a b r images) = r"
    by (simp add: newItem_def)
  have mem: "no_unclear (history (snd (saveToHistory a b r images s)))"
    if "no_unclear (history s)"
    using that history_updater_no_unclear [of "newItem a b r images" s] new
    by (simp add: saveToHistory_def)
  have per: "persisted_no_unclear (localStorage (snd (saveToHistory a b r images s)))"
    if "no_unclear (history s)" and "persisted_no_unclear (localStorage s)"
    using that history_updater_persisted_no_unclear [of "newItem a b r images" s] new
    by (simp add: saveToHistory_def)
  from skip mem per startup_no_unclear [of st] show ?thesis by blast
qed

theorem unclear_never_saved_witness:
  "isUnclear (imageQualityCheck (verdict True ''blurred''))
   \<and> no_unclear (history (dashboard woman_35 [''img''] (browser [])))
   \<and> persisted_no_unclear (localStorage (dashboard woman_35 [''img''] (browser [])))
   \<and> saveToHistory 1 2 (verdict True ''blurred'') [''img''] (dashboard woman_35 [''img''] (browser []))
       = (None, dashboard woman_35 [''img''] (browser []))
   \<and> history (snd (saveToHistory 1 2 (verdict False ''ok'') [''img'']
        (dashboard woman_35 [''img''] (browser [])))) = [newItem 1 2 (verdict False ''ok'') [''img'']]
   \<and> no_unclear (history (snd (saveToHistory 1 2 (verdict False ''ok'') [''img'']
        (dashboard woman_35 [''img''] (browser [])))))
   \<and> persisted_no_unclear
        ((browser [])\<lparr>sukoyaka_history := Some (Json [newItem 1 2 (verdict False ''ok'') [''img'']])\<rparr>)
   \<and> no_unclear (history (snd (startup
        ((browser [])\<lparr>sukoyaka_history := Some (Json [newItem 1 2 (verdict False ''ok'') [''img'']])\<rparr>))))"
  using unclear_never_saved [of "verdict True ''blurred''" 1 2 "[''img'']"
      "dashboard woman_35 [''img''] (browser [])"]
    unclear_never_saved [of "verdict False ''ok''" 1 2 "[''img'']"
      "dashboard woman_35 [''img''] (browser [])" _
      "(browser [])\<lparr>sukoyaka_history := Some (Json [newItem 1 2 (verdict False ''ok'') [''img'']])\<rparr>"]
  by (simp add: verdict_def dashboard_def mount_def browser_def no_unclear_def newItem_def
      persisted_no_unclear_def saveToHistory_def history_updater_def setItem_history_def Let_def)

text \<open>
  C3. The first rejected write is retried with every preview stripped, and when the retry is
  accepted nothing is thrown (\<open>saveToHistory_fallback_accepted\<close>). When the browser rejects
  the retry too, the exception leaves the updater: the new entry is not in the history in
  memory, and the error escapes the handler of the response.
\<close>

theorem fallback_write_rejected:
  "fst (saveToHistory 1 2 (verdict False ''ok'') [''img'']
         (dashboard woman_35 [''img''] (browser [True, True]))) = Some QuotaExceededError
   \<and> history (snd (saveToHistory 1 2 (verdict False ''ok'') [''img'']
         (dashboard woman_35 [''img''] (browser [True, True])))) = []
   \<and> handleAnalysis_settled \<lparr>request_profile = woman_35, request_images = [''img'']\<rparr>
        (Inr (verdict False ''ok'')) 1 2
        ((dashboard woman_35 [''img''] (browser [True, True]))\<lparr>isAnalyzing := True\<rparr>)
      = (Some QuotaExceededError,
         (dashboard woman_35 [''img''] (browser []))\<lparr>currentResult := Some (verdict False ''ok'')\<rparr>)"
  by (simp add: handleAnalysis_settled_def saveToHistory_def history_updater_def Let_def
      setItem_history_def dashboard_def mount_def browser_def verdict_def)

section \<open>Loading and saving the documents\<close>

text \<open>
  C4, as amended. Loading returns normally exactly when neither document is a text that
  \<^verbatim>\<open>JSON.parse\<close> rejects and the profile document is not \<^verbatim>\<open>null\<close>. Then the profile is the
  value of the profile document as it is, the last saved profile when the application
  saved it, or the empty profile when the document is absent or the empty string; and the
  history is the value of the history document as it is, or the empty log when the document
  is absent or the empty string. Otherwise loading throws: a TypeError for the profile
  document \<^verbatim>\<open>null\<close>, a SyntaxError for a text that does not parse.
\<close>

theorem load_documents:
  "(fst (initialize_cells profile_doc history_doc) = None \<longleftrightarrow>
      profile_doc \<noteq> Some Malformed \<and> profile_doc \<noteq> Some (Json JNull)
      \<and> history_doc \<noteq> Some Malformed)
   \<and> (fst (initialize_cells profile_doc history_doc) = None \<longrightarrow>
        cell_userProfile (snd (initialize_cells profile_doc history_doc))
          = (case profile_doc of
               Some (Json v) \<Rightarrow> v
             | _ \<Rightarrow> profile_json \<lparr>age = '''', gender = Unset, healthContext = ''''\<rparr>)
        \<and> cell_history (snd (initialize_cells profile_doc history_doc))
          = (case history_doc of Some (Json v) \<Rightarrow> v | _ \<Rightarrow> JArray []))
   \<and> (fst (initialize_cells profile_doc history_doc) \<noteq> None \<longrightarrow>
        fst (initialize_cells profile_doc history_doc)
          = (if profile_doc = Some (Json JNull) then Some TypeError else Some SyntaxError))"
proof -
  have returns: "fst (initialize_cells profile_doc history_doc) = None \<longleftrightarrow>
      profile_doc \<noteq> Some Malformed \<and> profile_doc \<noteq> Some (Json JNull)
      \<and> history_doc \<noteq> Some Malformed"
    by (simp add: initialize_cells_thrown)
  have thrown: "fst (initialize_cells profile_doc history_doc)
          = (if profile_doc = Some (Json JNull) then Some TypeError else Some SyntaxError)"
    if "fst (initialize_cells profile_doc history_doc) \<noteq> None"
    using that by (simp add: initialize_cells_thrown split: if_splits)
  from returns thrown initialize_cells_loaded [of profile_doc history_doc]
  show ?thesis by blast
qed

theorem load_documents_witness:
  "initialize_cells (Some (Json (profile_json woman_35))) (Some (Json (JArray [JObject []])))
     = (None, \<lparr>cell_userProfile = profile_json woman_35, cell_appState = DASHBOARD,
               cell_history = JArray [JObject []]\<rparr>)
   \<and> initialize_cells (Some (Json (JObject []))) None
     = (None, \<lparr>cell_userProfile = JObject [], cell_appState = ONBOARDING,
               cell_history = JArray []\<rparr>)
   \<and> fst (initialize_cells (Some (Json JNull)) None) = Some TypeError
   \<and> fst (initialize_cells None (Some Malformed)) = Some SyntaxError"
  using load_documents [of "Some (Json (profile_json woman_35))" "Some (Json (JArray [JObject []]))"]
    load_documents [of "Some (Json (JObject []))" None]
    load_documents [of "Some (Json JNull)" None]
    load_documents [of None "Some Malformed"]
  by (simp add: initialize_cells_def initialize_cells_history_def mount_cells_def profile_json_def
      woman_35_def truthy_def Let_def)

text \<open>
  C4 as it is written fails: a profile document that does not parse, or a history document
  that does not parse, makes the initialisation throw; after such a profile document the
  history is not loaded.
\<close>

theorem load_documents_counterexample:
  "fst (initialize_cells (Some Malformed) None) = Some SyntaxError
   \<and> cell_history (snd (initialize_cells (Some Malformed) (Some (Json (JArray [JObject []])))))
       = JArray []
   \<and> fst (initialize_cells None (Some Malformed)) = Some SyntaxError
   \<and> fst (startup ((browser [])\<lparr>sukoyaka_profile := Some Malformed\<rparr>)) = Some SyntaxError"
  by (simp add: initialize_cells_def initialize_cells_history_def mount_cells_def
      startup_def initialize_def initialize_history_def mount_def browser_def)




section \<open>The outcomes of a scan attempt\<close>

text \<open>
  C8. When the gateway throws, the handler shows the message, clears the busy flag and
  changes nothing else: the Selection, the history and localStorage are as they were, and a
  click that had dispatched a request dispatches the same request, on the same Selection,
  again. An unclear result becomes the current result without a history write; the
  Selection is still there until the retry of the result view, \<^verbatim>\<open>resetScan\<close>, clears it.
\<close>

theorem gateway_failure_keeps_selection:
  "handleAnalysis_settled rq (Inl message) a b s
     = (None, s\<lparr>alerts := alerts s @ [message], isAnalyzing := False\<rparr>)
   \<and> selectedImages (snd (handleAnalysis_settled rq (Inl message) a b s)) = selectedImages s
   \<and> history (snd (handleAnalysis_settled rq (Inl message) a b s)) = history s
   \<and> localStorage (snd (handleAnalysis_settled rq (Inl message) a b s)) = localStorage s
   \<and> (fst (click_analyze s) = Some rq \<longrightarrow>
        fst (click_analyze (snd (handleAnalysis_settled rq (Inl message) a b (snd (click_analyze s)))))
          = Some rq
        \<and> request_images rq = selectedImages s)
   \<and> (isUnclear (imageQualityCheck r) \<longrightarrow>
        currentResult (snd (handleAnalysis_settled rq (Inr r) a b s)) = Some r
        \<and> selectedImages (snd (handleAnalysis_settled rq (Inr r) a b s)) = selectedImages s
        \<and> history (snd (handleAnalysis_settled rq (Inr r) a b s)) = history s
        \<and> selectedImages (resetScan (snd (handleAnalysis_settled rq (Inr r) a b s))) = [])"
proof -
  have failed: "handleAnalysis_settled rq (Inl message) a b s
     = (None, s\<lparr>alerts := alerts s @ [message], isAnalyzing := False\<rparr>)"
    by (simp add: handleAnalysis_settled_def)
  have retry: "fst (click_analyze (snd (handleAnalysis_settled rq (Inl message) a b (snd (click_analyze s)))))
          = Some rq \<and> request_images rq = selectedImages s"
    if "fst (click_analyze s) = Some rq"
    using that
    by (auto simp: click_analyze_def handleAnalysis_def handleAnalysis_settled_def render_def
        render_scan_def split: if_splits Tab.splits option.splits)
  have unclear: "currentResult (snd (handleAnalysis_settled rq (Inr r) a b s)) = Some r
        \<and> selectedImages (snd (handleAnalysis_settled rq (Inr r) a b s)) = selectedImages s
        \<and> history (snd (handleAnalysis_settled rq (Inr r) a b s)) = history s
        \<and> selectedImages (resetScan (snd (handleAnalysis_settled rq (Inr r) a b s))) = []"
    if "isUnclear (imageQualityCheck r)"
    using that by (simp add: handleAnalysis_settled_def saveToHistory_def resetScan_def)
  from failed retry unclear show ?thesis by simp
qed

theorem gateway_failure_keeps_selection_witness:
  "click_analyze (dashboard woman_35 [''img1'', ''img2''] (browser []))
     = (Some \<lparr>request_profile = woman_35, request_images = [''img1'', ''img2'']\<rparr>,
        (dashboard woman_35 [''img1'', ''img2''] (browser []))\<lparr>isAnalyzing := True\<rparr>)
   \<and> handleAnalysis_settled \<lparr>request_profile = woman_35, request_images = [''img1'', ''img2'']\<rparr>
        (Inl ''network down'') 1 2
        ((dashboard woman_35 [''img1'', ''img2''] (browser []))\<lparr>isAnalyzing := True\<rparr>)
     = (None, (dashboard woman_35 [''img1'', ''img2''] (browser []))\<lparr>alerts := [''network down'']\<rparr>)
   \<and> fst (click_analyze ((dashboard woman_35 [''img1'', ''img2''] (browser []))\<lparr>alerts := [''network down'']\<rparr>))
     = Some \<lparr>request_profile = woman_35, request_images = [''img1'', ''img2'']\<rparr>
   \<and> isUnclear (imageQualityCheck (verdict True ''blurred''))
   \<and> selectedImages (snd (handleAnalysis_settled \<lparr>request_profile = woman_35, request_images = [''img1'', ''img2'']\<rparr>
        (Inr (verdict True ''blurred'')) 1 2
        ((dashboard woman_35 [''img1'', ''img2''] (browser []))\<lparr>isAnalyzing := True\<rparr>)))
     = [''img1'', ''img2'']
   \<and> selectedImages (resetScan (snd (handleAnalysis_settled \<lparr>request_profile = woman_35, request_images = [''img1'', ''img2'']\<rparr>
        (Inr (verdict True ''blurred'')) 1 2
        ((dashboard woman_35 [''img1'', ''img2''] (browser []))\<lparr>isAnalyzing := True\<rparr>))))
     = []"
  using gateway_failure_keeps_selection [of
      "\<lparr>request_profile = woman_35, request_images = [''img1'', ''img2'']\<rparr>" "''network down''" 1 2
      "dashboard woman_35 [''img1'', ''img2''] (browser [])" "verdict True ''blurred''"]
    gateway_failure_keeps_selection [of
      "\<lparr>request_profile = woman_35, request_images = [''img1'', ''img2'']\<rparr>" "''network down''" 1 2
      "(dashboard woman_35 [''img1'', ''img2''] (browser []))\<lparr>isAnalyzing := True\<rparr>" "verdict True ''blurred''"]
  by (simp add: click_analyze_def handleAnalysis_def handleAnalysis_settled_def render_def
      render_scan_def isProfileConfigured_def truthy_def dashboard_def mount_def woman_35_def
      verdict_def saveToHistory_def resetScan_def)



section \<open>The order of a batch of images\<close>

text \<open>
  C1, as amended. When every file of a non-empty batch completes once, the batch publishes
  one Selection, at its last completion: the previews of before followed by the decoded
  images in the order their reads completed. The decoded images are those of the input,
  each as often, in that other order; and when the reads complete in input order the
  published Selection is in input order.
\<close>

theorem batch_published_in_completion_order:
  assumes "files \<noteq> []" and "mset completion = mset [0..<length files]"
  shows "handleFileChange previews files completion
           = [previews @ decoded (map (\<lambda>i. files ! i) completion)]
     \<and> mset (decoded (map (\<lambda>i. files ! i) completion)) = mset (decoded files)
     \<and> handleFileChange previews files [0..<length files] = [previews @ decoded files]"
proof -
  from assms(2) have len: "length completion = length files"
    using mset_eq_length by fastforce
  from assms(2) have "set completion = set [0..<length files]"
    by (rule mset_eq_setD)
  then have range: "\<forall>i \<in> set completion. i < length files" by simp
  from len assms(1) have ne: "completion \<noteq> []" by auto
  have pub: "handleFileChange previews files completion
           = [previews @ decoded (map (\<lambda>i. files ! i) completion)]"
    using run_callbacks_last [of completion "\<lparr>newPreviews = [], processedCount = 0\<rparr>" files previews]
      ne len range
    by (simp add: handleFileChange_def)
  have "mset (map (\<lambda>i. files ! i) completion) = mset (map (\<lambda>i. files ! i) [0..<length files])"
    using assms(2) by (simp only: mset_map)
  then have "mset (map (\<lambda>i. files ! i) completion) = mset files"
    by (simp add: map_nth)
  then have perm: "mset (decoded (map (\<lambda>i. files ! i) completion)) = mset (decoded files)"
    by (rule mset_decoded)
  have inorder: "handleFileChange previews files [0..<length files] = [previews @ decoded files]"
    using run_callbacks_last [of "[0..<length files]" "\<lparr>newPreviews = [], processedCount = 0\<rparr>" files previews]
      assms(1)
    by (simp add: handleFileChange_def map_nth)
  from pub perm inorder show ?thesis by simp
qed

theorem batch_published_in_completion_order_witness:
  "[Some ''A'', None, Some ''C''] \<noteq> []
   \<and> mset [2, 0, 1] = mset [0..<length [Some ''A'', None, Some ''C'']]
   \<and> handleFileChange [''P''] [Some ''A'', None, Some ''C''] [2, 0, 1] = [[''P'', ''C'', ''A'']]
   \<and> handleFileChange [''P''] [Some ''A'', None, Some ''C''] [0, 1, 2] = [[''P'', ''A'', ''C'']]"
proof -
  have u: "[0..<length [Some ''A'', None, Some ''C'']] = [0, 1, 2]"
    by code_simp
  have m: "mset [2, 0, 1] = mset [0..<length [Some ''A'', None, Some ''C'']]"
    unfolding u by simp
  have ne: "[Some ''A'', None, Some ''C''] \<noteq> []"
    by simp
  note published = batch_published_in_completion_order
    [of "[Some ''A'', None, Some ''C'']" "[2, 0, 1]" "[''P'']", OF ne m, unfolded u]
  from published m show ?thesis
    by (simp add: truthy_def)
qed

text \<open>
  C1 as it is written fails: files A, B, C whose reads complete in the order C, A, B are
  published as C, A, B.
\<close>

theorem batch_order_counterexample:
  "handleFileChange [] [Some ''A'', Some ''B'', Some ''C''] [2, 0, 1] = [[''C'', ''A'', ''B'']]
   \<and> handleFileChange [] [Some ''A'', Some ''B'', Some ''C''] [2, 0, 1] \<noteq> [[''A'', ''B'', ''C'']]"
  by (simp add: handleFileChange_def onloadend_def truthy_def Let_def)

end
